theory Spec2Isabelle
  imports Complex_Main "HOL-Library.Word"
begin

section \<open>ControlInteractivity: the pointer-interaction layer of the terminal control\<close>

text \<open>
  A shallow embedding of \<^verbatim>\<open>src/cascadia/TerminalControl/ControlInteractivity.cpp\<close>.

  \<^item> The member variables of \<^verbatim>\<open>ControlInteractivity\<close> are the fields of the record
    \<open>interactivity\<close>; every method takes the record and returns the updated one.
  \<^item> The object \<^verbatim>\<open>_core\<close> (class \<^verbatim>\<open>ControlCore\<close>) is an external collaborator.
    What its query methods return while one event is handled is the record \<open>core_answers\<close>,
    an input of every handler. Each handler asks every query at most once and before it
    calls any mutating method of the core, so one record of answers per event is exact.
    The mutating calls and the raised events are collected, in program order, in a list
    of \<open>effect\<close>s.
  \<^item> \<^verbatim>\<open>THROW_IF_FAILED\<close> is the only place that throws: a handler returns
    \<open>error + (state \<times> effect list)\<close>, with \<open>Inl\<close> for the exception.
  \<^item> \<^verbatim>\<open>uint64_t\<close>, \<^verbatim>\<open>unsigned int\<close> and \<^verbatim>\<open>short\<close> are words of 64, 32 and 16
    bits.
  \<^item> Floating-point values are not interpreted. The type variable \<open>'f\<close> stands for
    the floating-point values, \<^verbatim>\<open>float\<close> and \<^verbatim>\<open>double\<close> alike, and every
    arithmetic operation, comparison and conversion that the source performs on them is
    a field of the record \<open>float_ops\<close>, an argument of \<^verbatim>\<open>PointerMoved\<close>. What is
    proved holds for every such arithmetic, so for the single and double precision of
    the platform with its rounding, infinities and NaN. Two positions are compared as
    values; a position with a NaN coordinate, which the source finds different from
    itself, and the two signed zeros, which it finds equal, are outside the model.
\<close>

subsection \<open>Data\<close>

type_synonym 'f Point = "'f \<times> 'f"
  \<comment> \<open>\<^verbatim>\<open>winrt::Windows::Foundation::Point\<close>: (X, Y), in device-independent pixels\<close>

type_synonym til_point = "int \<times> int"
  \<comment> \<open>\<^verbatim>\<open>til::point\<close>: a cell of the terminal\<close>

type_synonym Timestamp = "64 word"

type_synonym CopyFormat = "32 word"

datatype PointerDeviceType = Touch | Pen | Mouse | Touchpad

datatype PointerUpdateKind =
    Other
  | LeftButtonPressed | LeftButtonReleased
  | RightButtonPressed | RightButtonReleased
  | MiddleButtonPressed | MiddleButtonReleased
  | XButton1Pressed | XButton1Released
  | XButton2Pressed | XButton2Released

text \<open>The window messages of \<^verbatim>\<open>WinUser.h\<close> that \<^verbatim>\<open>_TrySendMouseEvent\<close> names.\<close>

datatype window_message =
    WM_MOUSEMOVE
  | WM_LBUTTONDOWN | WM_LBUTTONUP
  | WM_MBUTTONDOWN | WM_MBUTTONUP
  | WM_RBUTTONDOWN | WM_RBUTTONUP
  | WM_MOUSEWHEEL

record 'f Rect =
  RectX :: 'f
  RectY :: 'f
  RectWidth :: 'f
  RectHeight :: 'f

text \<open>
  \<^verbatim>\<open>Windows::UI::Input::PointerPoint\<close>, with the properties of
  \<^verbatim>\<open>point.Properties()\<close> that the handlers read.
\<close>

record 'f PointerPoint =
  Position :: "'f Point"
  Timestamp :: Timestamp
  IsLeftButtonPressed :: bool
  IsMiddleButtonPressed :: bool
  IsRightButtonPressed :: bool
  UpdateKind :: PointerUpdateKind
  MouseWheelDelta :: "32 word"
  IsHorizontalMouseWheel :: bool
  ContactRect :: "'f Rect"

record ControlKeyStates =
  IsAltPressed :: bool
  IsShiftPressed :: bool
  IsCtrlPressed :: bool

text \<open>
  The answers of \<^verbatim>\<open>_core\<close> during one event. \<open>GetHyperlink\<close> is the answer at the
  event's terminal position. \<open>FontSizeInDips\<close> is the (width, height) of
  \<^verbatim>\<open>til::size{ _core->GetFont().GetSize() }.scale(til::math::rounding, 1.0f / _core->RendererScale())\<close>:
  the font, the scale and \<^verbatim>\<open>til::size\<close> are not part of this file.
  \<open>LeftClickOnTerminal_flag\<close> is the value that \<^verbatim>\<open>_selectionNeedsToBeCopied\<close>, the
  last argument of \<^verbatim>\<open>LeftClickOnTerminal\<close>, holds when that call returns.
  \<open>CopySelectionToClipboard_result\<close> is what the core's method of that name returns.
\<close>

record core_answers =
  GetHyperlink :: string
  IsVtMouseModeEnabled :: bool
  HasSelection :: bool
  CopyOnSelect :: bool
  IsInReadOnlyMode :: bool
  FontSizeInDips :: "int \<times> int"
  ScrollOffset :: int
  LeftClickOnTerminal_flag :: bool
  CopySelectionToClipboard_result :: bool

text \<open>
  Calls into the core that change it, and events raised to the host.
  \<open>Core_SendMouseEvent\<close>: position, button, modifiers, wheel delta, and the
  (left, middle, right) \<^verbatim>\<open>MouseButtonState\<close>.
  \<open>Core_LeftClickOnTerminal\<close>: position, number of clicks, alt, shift,
  isOnOriginalPosition, and \<^verbatim>\<open>_selectionNeedsToBeCopied\<close> as it is passed in.
\<close>

datatype 'f effect =
    Core_SendMouseEvent til_point window_message ControlKeyStates "16 word" "bool \<times> bool \<times> bool"
  | Core_LeftClickOnTerminal til_point "32 word" bool bool bool bool
  | Core_CopySelectionToClipboard bool "CopyFormat option"
  | Core_SetSelectionAnchor til_point
  | Core_SetEndSelectionPoint til_point
  | Core_UpdateHoveredCell til_point
  | Core_UserScrollViewport 'f
  | Raise_PasteFromClipboard
  | Raise_OpenHyperlink string

datatype error = INTSAFE_E_ARITHMETIC_OVERFLOW

record 'f interactivity =
  touchAnchor :: "'f Point option"
  lastMouseClickTimestamp :: Timestamp
  lastMouseClickPos :: "'f Point"
  multiClickTimer :: Timestamp
  multiClickCounter :: "32 word"
  selectionNeedsToBeCopied :: bool
  singleClickTouchdownPos :: "'f Point option"
  singleClickTouchdownTerminalPos :: "til_point option"
  lastMouseClickPosNoSelection :: "'f Point"

text \<open>
  The floating-point operations of the source, by the place where each is used in
  \<^verbatim>\<open>PointerMoved\<close>:
  \<open>f_sub\<close>, \<open>f_add\<close>, \<open>f_mul\<close>, \<open>f_div\<close> are \<^verbatim>\<open>-\<close>, \<^verbatim>\<open>+\<close>, \<^verbatim>\<open>*\<close>, \<^verbatim>\<open>/\<close> on
  \<^verbatim>\<open>float\<close>; \<open>f_sqrt\<close> is \<^verbatim>\<open>std::sqrtf\<close>, \<open>f_pow\<close> is \<^verbatim>\<open>std::powf\<close>, \<open>f_abs\<close> is
  \<^verbatim>\<open>std::abs\<close>; \<open>f_ge\<close> and \<open>f_gt\<close> are \<^verbatim>\<open>>=\<close> and \<^verbatim>\<open>>\<close>; \<open>f_of_int\<close> converts an
  integer to \<^verbatim>\<open>float\<close> (also used for the literals \<^verbatim>\<open>2\<close>, \<^verbatim>\<open>4.f\<close>, \<^verbatim>\<open>2.0f\<close> and
  \<^verbatim>\<open>-1.0f\<close>); \<open>d_of_f\<close> and \<open>d_of_int\<close> convert a \<^verbatim>\<open>float\<close> and an integer to
  \<^verbatim>\<open>double\<close>, and \<open>d_add\<close> is \<^verbatim>\<open>+\<close> on \<^verbatim>\<open>ClampedNumeric<double>\<close>.
\<close>

record 'f float_ops =
  f_sub :: "'f \<Rightarrow> 'f \<Rightarrow> 'f"
  f_add :: "'f \<Rightarrow> 'f \<Rightarrow> 'f"
  f_mul :: "'f \<Rightarrow> 'f \<Rightarrow> 'f"
  f_div :: "'f \<Rightarrow> 'f \<Rightarrow> 'f"
  f_sqrt :: "'f \<Rightarrow> 'f"
  f_pow :: "'f \<Rightarrow> 'f \<Rightarrow> 'f"
  f_abs :: "'f \<Rightarrow> 'f"
  f_ge :: "'f \<Rightarrow> 'f \<Rightarrow> bool"
  f_gt :: "'f \<Rightarrow> 'f \<Rightarrow> bool"
  f_of_int :: "int \<Rightarrow> 'f"
  d_of_f :: "'f \<Rightarrow> 'f"
  d_of_int :: "int \<Rightarrow> 'f"
  d_add :: "'f \<Rightarrow> 'f \<Rightarrow> 'f"

subsection \<open>Construction\<close>

text \<open>
  The constructor initialises \<^verbatim>\<open>_touchAnchor\<close>, \<^verbatim>\<open>_lastMouseClickTimestamp\<close>,
  \<^verbatim>\<open>_lastMouseClickPos\<close> and \<^verbatim>\<open>_selectionNeedsToBeCopied\<close>; the two
  \<^verbatim>\<open>std::optional\<close> touchdown members start empty. The members it does not mention
  (\<^verbatim>\<open>_multiClickTimer\<close>, \<^verbatim>\<open>_multiClickCounter\<close>,
  \<^verbatim>\<open>_lastMouseClickPosNoSelection\<close>) are arguments here. The value-initialised
  \<^verbatim>\<open>_lastMouseClickPos{}\<close> is the point (0, 0): the type of the coordinates has a zero.
\<close>

definition ControlInteractivity ::
  "Timestamp \<Rightarrow> 32 word \<Rightarrow> ('f :: zero) Point \<Rightarrow> 'f interactivity" where
  "ControlInteractivity timer counter posNoSelection =
     \<lparr> touchAnchor = None,
       lastMouseClickTimestamp = 0,
       lastMouseClickPos = (0, 0),
       multiClickTimer = timer,
       multiClickCounter = counter,
       selectionNeedsToBeCopied = False,
       singleClickTouchdownPos = None,
       singleClickTouchdownTerminalPos = None,
       lastMouseClickPosNoSelection = posNoSelection \<rparr>"

text \<open>
  \<^verbatim>\<open>Initialize\<close>: \<^verbatim>\<open>GetDoubleClickTime()\<close> is a 32-bit \<^verbatim>\<open>UINT\<close> of milliseconds; the
  product is taken in 32 bits and then widened.
\<close>

definition Initialize :: "'f interactivity \<Rightarrow> 32 word \<Rightarrow> 'f interactivity" where
  "Initialize s doubleClickTime = s\<lparr>multiClickTimer := ucast (doubleClickTime * 1000)\<rparr>"

subsection \<open>Click counting\<close>

text \<open>\<^verbatim>\<open>UInt64Sub\<close> of \<^verbatim>\<open>intsafe.h\<close> fails when the result would be negative.\<close>

definition UInt64Sub :: "64 word \<Rightarrow> 64 word \<Rightarrow> error + 64 word" where
  "UInt64Sub minuend subtrahend =
     (if minuend < subtrahend then Inl INTSAFE_E_ARITHMETIC_OVERFLOW
      else Inr (minuend - subtrahend))"

definition NumberOfClicks ::
  "'f interactivity \<Rightarrow> 'f Point \<Rightarrow> Timestamp \<Rightarrow> error + (32 word \<times> 'f interactivity)" where
  "NumberOfClicks s clickPos clickTime =
     (case UInt64Sub clickTime (lastMouseClickTimestamp s) of
        Inl e \<Rightarrow> Inl e
      | Inr delta \<Rightarrow>
          let counter =
                (if clickPos \<noteq> lastMouseClickPos s \<or> delta > multiClickTimer s
                 then 1
                 else multiClickCounter s + 1)
          in Inr (counter,
                  s\<lparr> multiClickCounter := counter,
                     lastMouseClickTimestamp := clickTime,
                     lastMouseClickPos := clickPos \<rparr>))"

subsection \<open>Clipboard, hyperlinks and VT mouse input\<close>

text \<open>
  \<^verbatim>\<open>_core\<close> is assigned in the constructor and nowhere else, so the test
  \<^verbatim>\<open>if (_core)\<close> of \<^verbatim>\<open>CopySelectionToClipboard\<close> always succeeds.
\<close>

definition CopySelectionToClipboard ::
  "'f interactivity \<Rightarrow> bool \<Rightarrow> CopyFormat option \<Rightarrow> core_answers
     \<Rightarrow> bool \<times> 'f interactivity \<times> 'f effect list" where
  "CopySelectionToClipboard s singleLine formats core =
     (CopySelectionToClipboard_result core,
      s\<lparr>selectionNeedsToBeCopied := False\<rparr>,
      [Core_CopySelectionToClipboard singleLine formats])"

definition PasteTextFromClipboard :: "'f effect list" where
  "PasteTextFromClipboard = [Raise_PasteFromClipboard]"

definition HyperlinkHandler :: "string \<Rightarrow> 'f effect list" where
  "HyperlinkHandler uri = [Raise_OpenHyperlink uri]"

definition CanSendVTMouseInput :: "ControlKeyStates \<Rightarrow> core_answers \<Rightarrow> bool" where
  "CanSendVTMouseInput modifiers core =
     (if IsShiftPressed modifiers then False else IsVtMouseModeEnabled core)"

text \<open>\<^verbatim>\<open>::base::saturated_cast<short>\<close> of a 32-bit signed integer.\<close>

definition saturated_cast_short :: "32 word \<Rightarrow> 16 word" where
  "saturated_cast_short d = word_of_int (max (- 32768) (min 32767 (sint d)))"

text \<open>The result of \<^verbatim>\<open>_core->SendMouseEvent\<close> is returned to callers that ignore it.\<close>

definition TrySendMouseEvent ::
  "'f PointerPoint \<Rightarrow> ControlKeyStates \<Rightarrow> til_point \<Rightarrow> 'f effect list" where
  "TrySendMouseEvent point modifiers terminalPosition =
     (let uiButton0 =
            (case UpdateKind point of
               LeftButtonPressed \<Rightarrow> WM_LBUTTONDOWN
             | LeftButtonReleased \<Rightarrow> WM_LBUTTONUP
             | MiddleButtonPressed \<Rightarrow> WM_MBUTTONDOWN
             | MiddleButtonReleased \<Rightarrow> WM_MBUTTONUP
             | RightButtonPressed \<Rightarrow> WM_RBUTTONDOWN
             | RightButtonReleased \<Rightarrow> WM_RBUTTONUP
             | _ \<Rightarrow> WM_MOUSEMOVE);
          sWheelDelta = saturated_cast_short (MouseWheelDelta point);
          uiButton =
            (if sWheelDelta \<noteq> 0 \<and> \<not> IsHorizontalMouseWheel point then WM_MOUSEWHEEL
             else uiButton0);
          state = (IsLeftButtonPressed point, IsMiddleButtonPressed point, IsRightButtonPressed point)
      in [Core_SendMouseEvent terminalPosition uiButton modifiers sWheelDelta state])"

definition SetEndSelectionPoint ::
  "'f interactivity \<Rightarrow> til_point \<Rightarrow> 'f interactivity \<times> 'f effect list" where
  "SetEndSelectionPoint s terminalPosition =
     (s\<lparr>selectionNeedsToBeCopied := True\<rparr>, [Core_SetEndSelectionPoint terminalPosition])"

subsection \<open>The three pointer handlers\<close>

definition MAX_CLICK_COUNT :: "32 word" where
  "MAX_CLICK_COUNT = 3"

definition multiClickMapper :: "32 word \<Rightarrow> 32 word" where
  "multiClickMapper clickCount =
     (if clickCount > MAX_CLICK_COUNT
      then ((clickCount + MAX_CLICK_COUNT - 1) mod MAX_CLICK_COUNT) + 1
      else clickCount)"

definition PointerPressed ::
  "'f interactivity \<Rightarrow> 'f PointerPoint \<Rightarrow> ControlKeyStates \<Rightarrow> bool \<Rightarrow> til_point
     \<Rightarrow> PointerDeviceType \<Rightarrow> core_answers \<Rightarrow> error + ('f interactivity \<times> 'f effect list)" where
  "PointerPressed s point modifiers focused terminalPosition type core =
     (if type = Mouse \<or> type = Pen then
        let altEnabled = IsAltPressed modifiers;
            shiftEnabled = IsShiftPressed modifiers;
            ctrlEnabled = IsCtrlPressed modifiers;
            cursorPosition = Position point;
            hyperlink = GetHyperlink core
        in
          if IsLeftButtonPressed point \<and> ctrlEnabled \<and> hyperlink \<noteq> [] then
            (case NumberOfClicks s cursorPosition (Timestamp point) of
               Inl e \<Rightarrow> Inl e
             | Inr (clickCount, s1) \<Rightarrow>
                 Inr (s1, if clickCount = 1 then HyperlinkHandler hyperlink else []))
          else if CanSendVTMouseInput modifiers core then
            Inr (s, TrySendMouseEvent point modifiers terminalPosition)
          else if IsLeftButtonPressed point then
            (case NumberOfClicks s cursorPosition (Timestamp point) of
               Inl e \<Rightarrow> Inl e
             | Inr (clickCount, s1) \<Rightarrow>
                 let mapped = multiClickMapper clickCount;
                     s2 = (if mapped = 1 \<and> \<not> HasSelection core
                           then s1\<lparr> singleClickTouchdownPos := Some cursorPosition,
                                    singleClickTouchdownTerminalPos := Some terminalPosition,
                                    lastMouseClickPosNoSelection := cursorPosition \<rparr>
                           else s1);
                     isOnOriginalPosition = (lastMouseClickPosNoSelection s2 = cursorPosition)
                 in Inr (s2\<lparr>selectionNeedsToBeCopied := LeftClickOnTerminal_flag core\<rparr>,
                         [Core_LeftClickOnTerminal terminalPosition mapped altEnabled shiftEnabled
                            isOnOriginalPosition (selectionNeedsToBeCopied s2)]))
          else if IsRightButtonPressed point then
            (if CopyOnSelect core \<or> \<not> HasSelection core then
               Inr (s, PasteTextFromClipboard)
             else
               (case CopySelectionToClipboard s shiftEnabled None core of
                  (_, s1, fx) \<Rightarrow> Inr (s1, fx)))
          else Inr (s, [])
      else if type = Touch then
        let contactRect = ContactRect point
        in Inr (s\<lparr>touchAnchor := Some (RectX contactRect, RectY contactRect)\<rparr>, [])
      else Inr (s, []))"

text \<open>
  In \<^verbatim>\<open>PointerMoved\<close> the distance is
  \<^verbatim>\<open>sqrtf(powf(dx, 2) + powf(dy, 2))\<close>, and the threshold divides the smaller of the
  two integer cell dimensions, converted to \<^verbatim>\<open>float\<close>, by \<^verbatim>\<open>4.f\<close>. In the touch
  branch \<^verbatim>\<open>fontSizeInDips.height<float>()\<close> converts the integer cell height, and the
  new scroll value is the sum of the \<^verbatim>\<open>float\<close> \<open>numRows\<close>, promoted to
  \<^verbatim>\<open>double\<close>, and the scroll offset as a \<^verbatim>\<open>ClampedNumeric<double>\<close>; what
  \<^verbatim>\<open>UserScrollViewport\<close> makes of it is the core's business.
\<close>

definition PointerMoved ::
  "'f float_ops \<Rightarrow> 'f interactivity \<Rightarrow> 'f PointerPoint \<Rightarrow> ControlKeyStates \<Rightarrow> bool
     \<Rightarrow> til_point \<Rightarrow> PointerDeviceType \<Rightarrow> core_answers
     \<Rightarrow> error + ('f interactivity \<times> 'f effect list)" where
  "PointerMoved ops s point modifiers focused terminalPosition type core =
     (let cursorPosition = Position point in
      if type = Mouse \<or> type = Pen then
        (case
           (if focused \<and> \<not> IsInReadOnlyMode core \<and> CanSendVTMouseInput modifiers core then
              (s, TrySendMouseEvent point modifiers terminalPosition)
            else if focused \<and> IsLeftButtonPressed point then
              (case
                 (case singleClickTouchdownPos s of
                    None \<Rightarrow> (s, [])
                  | Some touchdownPoint \<Rightarrow>
                      let distance =
                            f_sqrt ops
                              (f_add ops
                                 (f_pow ops (f_sub ops (fst cursorPosition) (fst touchdownPoint))
                                    (f_of_int ops 2))
                                 (f_pow ops (f_sub ops (snd cursorPosition) (snd touchdownPoint))
                                    (f_of_int ops 2)));
                          fontSizeInDips = FontSizeInDips core
                      in if f_ge ops distance
                              (f_div ops
                                 (f_of_int ops (min (fst fontSizeInDips) (snd fontSizeInDips)))
                                 (f_of_int ops 4))
                         then (s\<lparr> singleClickTouchdownPos := None,
                                  singleClickTouchdownTerminalPos := None \<rparr>,
                               [Core_SetSelectionAnchor terminalPosition])
                         else (s, []))
               of (s1, fx1) \<Rightarrow>
                 (case SetEndSelectionPoint s1 terminalPosition of
                    (s2, fx2) \<Rightarrow> (s2, fx1 @ fx2)))
            else (s, []))
         of (s3, fx3) \<Rightarrow> Inr (s3, fx3 @ [Core_UpdateHoveredCell terminalPosition]))
      else if focused \<and> type = Touch \<and> touchAnchor s \<noteq> None then
        (case touchAnchor s of
           None \<Rightarrow> Inr (s, [])
         | Some anchor \<Rightarrow>
             let contactRect = ContactRect point;
                 newTouchPoint = (RectX contactRect, RectY contactRect);
                 fontSizeInDips = FontSizeInDips core;
                 dy = f_sub ops (snd newTouchPoint) (snd anchor)
             in if f_gt ops (f_abs ops dy)
                     (f_div ops (f_of_int ops (snd fontSizeInDips)) (f_of_int ops 2)) then
                  let numRows = f_mul ops (f_of_int ops (- 1))
                                  (f_div ops dy (f_of_int ops (snd fontSizeInDips)));
                      currentOffset = d_of_int ops (ScrollOffset core);
                      newValue = d_add ops (d_of_f ops numRows) currentOffset
                  in Inr (s\<lparr>touchAnchor := Some newTouchPoint\<rparr>, [Core_UserScrollViewport newValue])
                else Inr (s, []))
      else Inr (s, []))"

definition PointerReleased ::
  "'f interactivity \<Rightarrow> 'f PointerPoint \<Rightarrow> ControlKeyStates \<Rightarrow> bool \<Rightarrow> til_point
     \<Rightarrow> PointerDeviceType \<Rightarrow> core_answers \<Rightarrow> error + ('f interactivity \<times> 'f effect list)" where
  "PointerReleased s point modifiers focused terminalPosition type core =
     (if (type = Mouse \<or> type = Pen) \<and>
         \<not> IsInReadOnlyMode core \<and> CanSendVTMouseInput modifiers core then
        Inr (s, TrySendMouseEvent point modifiers terminalPosition)
      else
        (case
           (if type = Mouse \<or> type = Pen then
              (if CopyOnSelect core \<and> UpdateKind point = LeftButtonReleased \<and>
                  selectionNeedsToBeCopied s then
                 (case CopySelectionToClipboard s False None core of (_, s1, fx) \<Rightarrow> (s1, fx))
               else (s, []))
            else if type = Touch then (s\<lparr>touchAnchor := None\<rparr>, [])
            else (s, []))
         of (s1, fx) \<Rightarrow>
           Inr (s1\<lparr> singleClickTouchdownPos := None,
                    singleClickTouchdownTerminalPos := None \<rparr>, fx)))"

subsection \<open>Sequences of pointer events\<close>

datatype handler = Pressed | Moved | Released

record 'f pointer_event =
  ev_handler :: handler
  ev_point :: "'f PointerPoint"
  ev_modifiers :: ControlKeyStates
  ev_focused :: bool
  ev_terminalPosition :: til_point
  ev_type :: PointerDeviceType
  ev_core :: core_answers

definition dispatch ::
  "'f float_ops \<Rightarrow> 'f interactivity \<Rightarrow> 'f pointer_event
     \<Rightarrow> error + ('f interactivity \<times> 'f effect list)" where
  "dispatch ops s e =
     (case ev_handler e of
        Pressed \<Rightarrow> PointerPressed s (ev_point e) (ev_modifiers e) (ev_focused e)
                     (ev_terminalPosition e) (ev_type e) (ev_core e)
      | Moved \<Rightarrow> PointerMoved ops s (ev_point e) (ev_modifiers e) (ev_focused e)
                   (ev_terminalPosition e) (ev_type e) (ev_core e)
      | Released \<Rightarrow> PointerReleased s (ev_point e) (ev_modifiers e) (ev_focused e)
                      (ev_terminalPosition e) (ev_type e) (ev_core e))"

text \<open>
  The events are handled one after the other. An exception leaves the handler before it
  has changed any member, so the next event finds the state of the previous one.
\<close>

fun run_events ::
  "'f float_ops \<Rightarrow> 'f interactivity \<Rightarrow> 'f pointer_event list \<Rightarrow> 'f interactivity" where
  "run_events ops s [] = s"
| "run_events ops s (e # es) =
     (case dispatch ops s e of
        Inl _ \<Rightarrow> run_events ops s es
      | Inr (s1, _) \<Rightarrow> run_events ops s1 es)"

subsection \<open>Reading the list of effects\<close>

fun is_SendMouseEvent :: "'f effect \<Rightarrow> bool" where
  "is_SendMouseEvent (Core_SendMouseEvent _ _ _ _ _) = True"
| "is_SendMouseEvent _ = False"

fun is_CopySelectionToClipboard :: "'f effect \<Rightarrow> bool" where
  "is_CopySelectionToClipboard (Core_CopySelectionToClipboard _ _) = True"
| "is_CopySelectionToClipboard _ = False"

text \<open>A handler has forwarded its event when it returned and called \<^verbatim>\<open>SendMouseEvent\<close>.\<close>

definition forwards :: "error + ('f interactivity \<times> 'f effect list) \<Rightarrow> bool" where
  "forwards r = (case r of Inl _ \<Rightarrow> False | Inr (_, fx) \<Rightarrow> list_ex is_SendMouseEvent fx)"

subsection \<open>A press while the other kind of pointer is active\<close>

text \<open>
  \<open>press_of_other_kind s e\<close>: the event is a press of a touch pointer while a selection
  touchdown of the mouse or pen is pending in \<open>s\<close>, or a press of a mouse or pen while a
  touch anchor exists in \<open>s\<close>. \<open>no_press_of_other_kind ops s es\<close>: no event of the
  sequence is such a press in the state in which it arrives.
\<close>

definition press_of_other_kind :: "'f interactivity \<Rightarrow> 'f pointer_event \<Rightarrow> bool" where
  "press_of_other_kind s e \<longleftrightarrow>
     ev_handler e = Pressed \<and>
     (ev_type e = Touch \<and> singleClickTouchdownPos s \<noteq> None \<or>
      (ev_type e = Mouse \<or> ev_type e = Pen) \<and> touchAnchor s \<noteq> None)"

fun no_press_of_other_kind ::
  "'f float_ops \<Rightarrow> 'f interactivity \<Rightarrow> 'f pointer_event list \<Rightarrow> bool" where
  "no_press_of_other_kind ops s [] = True"
| "no_press_of_other_kind ops s (e # es) =
     (\<not> press_of_other_kind s e \<and>
      (case dispatch ops s e of
         Inl _ \<Rightarrow> no_press_of_other_kind ops s es
       | Inr (s1, _) \<Rightarrow> no_press_of_other_kind ops s1 es))"

subsection \<open>Sample inputs\<close>

text \<open>
  Concrete values for the examples below: no modifier key held; a left-button press at
  screen position (10, 10) with timestamp 20; a core with no hyperlink under the pointer,
  VT mouse mode off, no selection, copy-on-select off, not read-only and a cell of
  8 by 16 device-independent pixels; and a freshly constructed object with a multi-click
  window of 500000. The coordinates of the samples are real numbers, and \<open>exact_ops\<close> is
  exact arithmetic on them. The sample coordinates are small integers, and every result
  computed from them below is an integer too, so single and double precision compute
  the same values.
\<close>

definition exact_ops :: "real float_ops" where
  "exact_ops =
     \<lparr> f_sub = (\<lambda>x y. x - y), f_add = (\<lambda>x y. x + y), f_mul = (\<lambda>x y. x * y),
       f_div = (\<lambda>x y. x / y), f_sqrt = sqrt,
       f_pow = (\<lambda>x y. if y = 2 then x * x else x powr y),
       f_abs = abs, f_ge = (\<lambda>x y. x \<ge> y), f_gt = (\<lambda>x y. x > y),
       f_of_int = real_of_int, d_of_f = (\<lambda>x. x), d_of_int = real_of_int,
       d_add = (\<lambda>x y. x + y) \<rparr>"

abbreviation no_keys :: ControlKeyStates where
  "no_keys \<equiv> \<lparr> IsAltPressed = False, IsShiftPressed = False, IsCtrlPressed = False \<rparr>"

abbreviation left_press :: "real PointerPoint" where
  "left_press \<equiv>
     \<lparr> Position = (10, 10), Timestamp = 20,
       IsLeftButtonPressed = True, IsMiddleButtonPressed = False, IsRightButtonPressed = False,
       UpdateKind = LeftButtonPressed, MouseWheelDelta = 0, IsHorizontalMouseWheel = False,
       ContactRect = \<lparr> RectX = 0, RectY = 0, RectWidth = 0, RectHeight = 0 \<rparr> \<rparr>"

abbreviation plain_core :: core_answers where
  "plain_core \<equiv>
     \<lparr> GetHyperlink = [], IsVtMouseModeEnabled = False, HasSelection = False,
       CopyOnSelect = False, IsInReadOnlyMode = False, FontSizeInDips = (8, 16),
       ScrollOffset = 0, LeftClickOnTerminal_flag = False,
       CopySelectionToClipboard_result = True \<rparr>"

abbreviation fresh :: "real interactivity" where
  "fresh \<equiv>
     \<lparr> touchAnchor = None, lastMouseClickTimestamp = 0, lastMouseClickPos = (0, 0),
       multiClickTimer = 500000, multiClickCounter = 0, selectionNeedsToBeCopied = False,
       singleClickTouchdownPos = None, singleClickTouchdownTerminalPos = None,
       lastMouseClickPosNoSelection = (0, 0) \<rparr>"

section \<open>Properties\<close>

subsection \<open>Click registration\<close>

lemma UInt64Sub_Inr:
  "subtrahend \<le> minuend \<Longrightarrow> UInt64Sub minuend subtrahend = Inr (minuend - subtrahend)"
  by (simp add: UInt64Sub_def not_less)

lemma UInt64Sub_Inl:
  "minuend < subtrahend \<Longrightarrow> UInt64Sub minuend subtrahend = Inl INTSAFE_E_ARITHMETIC_OVERFLOW"
  by (simp add: UInt64Sub_def)

lemma NumberOfClicks_throws:
  "clickTime < lastMouseClickTimestamp s \<Longrightarrow>
   NumberOfClicks s clickPos clickTime = Inl INTSAFE_E_ARITHMETIC_OVERFLOW"
  by (simp add: NumberOfClicks_def UInt64Sub_Inl)

lemma NumberOfClicks_returns:
  "lastMouseClickTimestamp s \<le> clickTime \<Longrightarrow>
   \<exists>count s1. NumberOfClicks s clickPos clickTime = Inr (count, s1)"
  by (simp add: NumberOfClicks_def UInt64Sub_Inr Let_def)

lemma NumberOfClicks_Inl_iff:
  "(\<exists>e. NumberOfClicks s clickPos clickTime = Inl e) \<longleftrightarrow> clickTime < lastMouseClickTimestamp s"
  by (auto simp: NumberOfClicks_def UInt64Sub_def Let_def)

lemma unat_sub_le: "(b::64 word) \<le> a \<Longrightarrow> unat (a - b) = unat a - unat b"
  by (simp add: unat_sub)

text \<open>
  C9, as the claim states it, fails: a click whose timestamp is earlier than the stored
  one makes \<^verbatim>\<open>UInt64Sub\<close> fail, and \<^verbatim>\<open>THROW_IF_FAILED\<close> throws before a count is
  returned or the stored position and timestamp are touched. Here the stored timestamp is
  10 and the click comes at 5.
\<close>

theorem NumberOfClicks_earlier_timestamp_counterexample:
  "NumberOfClicks
     ((ControlInteractivity 500000 1 (0 :: real, 0))\<lparr>lastMouseClickTimestamp := 10\<rparr>) (0, 0) 5
   = Inl INTSAFE_E_ARITHMETIC_OVERFLOW"
  by (simp add: NumberOfClicks_def UInt64Sub_def ControlInteractivity_def)

text \<open>
  C9 (amended): for every call of the click registration whose timestamp is not earlier
  than the stored last-click timestamp, a count is returned. It is 1 if the position is
  not equal to the stored last-click position (the comparison is exact: there is no
  tolerance) or if the timestamp minus the stored timestamp exceeds the multi-click
  window; otherwise it is the previous count plus one in 32-bit unsigned arithmetic,
  which is the successor of the previous count as long as that is below \<open>2^32 - 1\<close>.
  In both cases the count, the position and the timestamp of this call are stored.
\<close>

theorem NumberOfClicks_registers:
  assumes "lastMouseClickTimestamp s \<le> clickTime"
  shows "\<exists>count s'.
      NumberOfClicks s clickPos clickTime = Inr (count, s') \<and>
      (clickPos \<noteq> lastMouseClickPos s \<or>
         unat clickTime - unat (lastMouseClickTimestamp s) > unat (multiClickTimer s)
         \<longrightarrow> count = 1) \<and>
      (clickPos = lastMouseClickPos s \<and>
         unat clickTime - unat (lastMouseClickTimestamp s) \<le> unat (multiClickTimer s)
         \<longrightarrow> count = multiClickCounter s + 1 \<and>
             (unat (multiClickCounter s) < 2 ^ 32 - 1
              \<longrightarrow> unat count = unat (multiClickCounter s) + 1)) \<and>
      multiClickCounter s' = count \<and>
      lastMouseClickPos s' = clickPos \<and>
      lastMouseClickTimestamp s' = clickTime"
proof -
  let ?delta = "clickTime - lastMouseClickTimestamp s"
  have d: "unat ?delta = unat clickTime - unat (lastMouseClickTimestamp s)"
    using assms by (rule unat_sub_le)
  have gt: "(?delta > multiClickTimer s) =
            (unat clickTime - unat (lastMouseClickTimestamp s) > unat (multiClickTimer s))"
    by (simp add: word_less_nat_alt d)
  have inc: "unat (multiClickCounter s) < 2 ^ 32 - 1 \<Longrightarrow>
             unat (multiClickCounter s + 1) = unat (multiClickCounter s) + 1"
    by (simp add: unat_word_ariths)
  show ?thesis
    using gt inc by (auto simp: NumberOfClicks_def UInt64Sub_Inr [OF assms] Let_def)
qed

text \<open>
  A second click at the same position, 10 time units after the first, with a window of
  500000: the count goes from 1 to 2.
\<close>

theorem NumberOfClicks_registers_witness:
  "lastMouseClickTimestamp
     ((ControlInteractivity 500000 1 (0 :: real, 0))\<lparr>lastMouseClickTimestamp := 10\<rparr>) \<le> 20 \<and>
   (\<exists>s'. NumberOfClicks
            ((ControlInteractivity 500000 1 (0 :: real, 0))\<lparr>lastMouseClickTimestamp := 10\<rparr>) (0, 0) 20
          = Inr (2, s') \<and>
          lastMouseClickPos s' = (0, 0) \<and> lastMouseClickTimestamp s' = 20)"
proof -
  let ?s = "(ControlInteractivity 500000 1 (0 :: real, 0))\<lparr>lastMouseClickTimestamp := 10\<rparr>"
  have h: "lastMouseClickTimestamp ?s \<le> 20"
    by (simp add: ControlInteractivity_def)
  from NumberOfClicks_registers [OF h, of "(0, 0)"]
  obtain count s' where
    r: "NumberOfClicks ?s (0, 0) 20 = Inr (count, s')" and
    c: "(0, 0) = lastMouseClickPos ?s \<and>
        unat (20 :: 64 word) - unat (lastMouseClickTimestamp ?s) \<le> unat (multiClickTimer ?s)
        \<longrightarrow> count = multiClickCounter ?s + 1" and
    p: "lastMouseClickPos s' = (0, 0)" and t: "lastMouseClickTimestamp s' = 20"
    by blast
  from c have "count = 2"
    by (simp add: ControlInteractivity_def)
  with r p t h show ?thesis by blast
qed

subsection \<open>Which events throw\<close>

lemma fresh_constructed: "ControlInteractivity 500000 0 (0, 0) = fresh"
  by (simp add: ControlInteractivity_def)

lemma PointerPressed_raises_iff:
  "(\<exists>e. PointerPressed s point modifiers focused terminalPosition type core = Inl e) \<longleftrightarrow>
   ((type = Mouse \<or> type = Pen) \<and> IsLeftButtonPressed point \<and>
    (IsCtrlPressed modifiers \<and> GetHyperlink core \<noteq> [] \<or> \<not> CanSendVTMouseInput modifiers core) \<and>
    Timestamp point < lastMouseClickTimestamp s)"
proof (cases "Timestamp point < lastMouseClickTimestamp s")
  case True
  then show ?thesis
    by (auto simp: PointerPressed_def Let_def NumberOfClicks_throws PasteTextFromClipboard_def
        CopySelectionToClipboard_def)
next
  case False
  then have "lastMouseClickTimestamp s \<le> Timestamp point" by simp
  from NumberOfClicks_returns [OF this, of "Position point"]
  obtain count s1 where "NumberOfClicks s (Position point) (Timestamp point) = Inr (count, s1)"
    by blast
  with False show ?thesis
    by (auto simp: PointerPressed_def Let_def PasteTextFromClipboard_def
        CopySelectionToClipboard_def)
qed

lemma PointerMoved_returns:
  "\<exists>s1 fx. PointerMoved ops s point modifiers focused terminalPosition type core = Inr (s1, fx)"
  by (auto simp: PointerMoved_def Let_def SetEndSelectionPoint_def split: option.splits prod.splits)

lemma PointerReleased_returns:
  "\<exists>s1 fx. PointerReleased s point modifiers focused terminalPosition type core = Inr (s1, fx)"
  by (auto simp: PointerReleased_def Let_def CopySelectionToClipboard_def
      split: option.splits prod.splits)

text \<open>
  C5, as the claim states it, fails: the last click is stored with timestamp 30, and a
  plain left-button press of the mouse arrives with timestamp 20. The press is handled as
  a local click, registers the click, and \<^verbatim>\<open>THROW_IF_FAILED\<close> throws.
\<close>

theorem dispatch_earlier_timestamp_counterexample:
  "dispatch exact_ops (fresh\<lparr>lastMouseClickTimestamp := 30\<rparr>)
     \<lparr> ev_handler = Pressed, ev_point = left_press, ev_modifiers = no_keys, ev_focused = True,
       ev_terminalPosition = (3, 4), ev_type = Mouse, ev_core = plain_core \<rparr>
   = Inl INTSAFE_E_ARITHMETIC_OVERFLOW"
  by (simp add: dispatch_def PointerPressed_def CanSendVTMouseInput_def NumberOfClicks_def
      UInt64Sub_def)

text \<open>
  C5 (amended): handling a pointer event throws exactly when the event is a press of a
  mouse or pen with the left button down that registers a click (Ctrl held over a cell
  with a hyperlink, or VT forwarding not applying) and whose timestamp is earlier than
  the stored last-click timestamp. Every other event, whatever its position, modifiers
  and timestamp, is handled without an error. (A throw happens before any member is
  written.)
\<close>

theorem dispatch_raises_iff:
  "(\<exists>err. dispatch ops s e = Inl err) \<longleftrightarrow>
   (ev_handler e = Pressed \<and> (ev_type e = Mouse \<or> ev_type e = Pen) \<and>
    IsLeftButtonPressed (ev_point e) \<and>
    (IsCtrlPressed (ev_modifiers e) \<and> GetHyperlink (ev_core e) \<noteq> [] \<or>
     \<not> CanSendVTMouseInput (ev_modifiers e) (ev_core e)) \<and>
    Timestamp (ev_point e) < lastMouseClickTimestamp s)"
proof (cases "ev_handler e")
  case Pressed
  then show ?thesis
    using PointerPressed_raises_iff [of s "ev_point e" "ev_modifiers e" "ev_focused e"
        "ev_terminalPosition e" "ev_type e" "ev_core e"]
    by (simp add: dispatch_def)
next
  case Moved
  then show ?thesis
    using PointerMoved_returns [of ops s "ev_point e" "ev_modifiers e" "ev_focused e"
        "ev_terminalPosition e" "ev_type e" "ev_core e"]
    by (auto simp: dispatch_def)
next
  case Released
  then show ?thesis
    using PointerReleased_returns [of s "ev_point e" "ev_modifiers e" "ev_focused e"
        "ev_terminalPosition e" "ev_type e" "ev_core e"]
    by (auto simp: dispatch_def)
qed

text \<open>
  The same press on a fresh object (stored timestamp 0) does not throw; a release with
  the stored timestamp at 30 does not throw either.
\<close>

theorem dispatch_raises_iff_witness:
  "(\<nexists>err. dispatch exact_ops fresh
       \<lparr> ev_handler = Pressed, ev_point = left_press, ev_modifiers = no_keys, ev_focused = True,
         ev_terminalPosition = (3, 4), ev_type = Mouse, ev_core = plain_core \<rparr> = Inl err) \<and>
   (\<nexists>err. dispatch exact_ops (fresh\<lparr>lastMouseClickTimestamp := 30\<rparr>)
       \<lparr> ev_handler = Released, ev_point = left_press, ev_modifiers = no_keys, ev_focused = True,
         ev_terminalPosition = (3, 4), ev_type = Mouse, ev_core = plain_core \<rparr> = Inl err)"
  using
    dispatch_raises_iff [of exact_ops fresh
       "\<lparr> ev_handler = Pressed, ev_point = left_press, ev_modifiers = no_keys, ev_focused = True,
          ev_terminalPosition = (3, 4), ev_type = Mouse, ev_core = plain_core \<rparr>"]
    dispatch_raises_iff [of exact_ops "fresh\<lparr>lastMouseClickTimestamp := 30\<rparr>"
       "\<lparr> ev_handler = Released, ev_point = left_press, ev_modifiers = no_keys, ev_focused = True,
          ev_terminalPosition = (3, 4), ev_type = Mouse, ev_core = plain_core \<rparr>"]
  by simp

subsection \<open>Presses: hyperlink, VT forwarding, right click\<close>

lemma TrySendMouseEvent_single:
  "\<exists>uiButton sWheelDelta state.
     TrySendMouseEvent point modifiers terminalPosition =
       [Core_SendMouseEvent terminalPosition uiButton modifiers sWheelDelta state]"
  by (simp add: TrySendMouseEvent_def Let_def)

lemma list_ex_TrySendMouseEvent [simp]:
  "list_ex is_SendMouseEvent (TrySendMouseEvent point modifiers terminalPosition)"
  by (simp add: TrySendMouseEvent_def Let_def)

text \<open>
  C1, as the claim states it, fails: VT mouse mode is enabled and Shift is not held, but
  Ctrl is held and the cell carries a hyperlink. The left-button press of the mouse is
  not forwarded: the hyperlink-activation signal is raised instead (GH#9396: hyperlinks
  are prioritised over VT mouse events).
\<close>

theorem PointerPressed_hyperlink_before_vt_counterexample:
  "PointerPressed fresh left_press (no_keys\<lparr>IsCtrlPressed := True\<rparr>) True (3, 4) Mouse
     (plain_core\<lparr>GetHyperlink := ''http://example.com'', IsVtMouseModeEnabled := True\<rparr>)
   = Inr (fresh\<lparr>multiClickCounter := 1, lastMouseClickTimestamp := 20,
                lastMouseClickPos := (10, 10)\<rparr>,
          [Raise_OpenHyperlink ''http://example.com''])"
  by (simp add: PointerPressed_def NumberOfClicks_def UInt64Sub_def HyperlinkHandler_def)

text \<open>
  C1 (amended): for every press event from a mouse or pen, if the terminal core reports
  VT mouse mode enabled, Shift is not held, and it is not the case that the left button
  is down with Ctrl held over a cell with a non-empty hyperlink, then the event is
  forwarded to \<^verbatim>\<open>SendMouseEvent\<close>; that call is the only effect of the event, so
  neither \<^verbatim>\<open>LeftClickOnTerminal\<close> is invoked nor a hyperlink-activation signal raised,
  and the state is unchanged.
\<close>

theorem PointerPressed_vt_forwarded:
  assumes "type = Mouse \<or> type = Pen"
    and "IsVtMouseModeEnabled core" and "\<not> IsShiftPressed modifiers"
    and "\<not> (IsLeftButtonPressed point \<and> IsCtrlPressed modifiers \<and> GetHyperlink core \<noteq> [])"
  shows "\<exists>uiButton sWheelDelta state.
           PointerPressed s point modifiers focused terminalPosition type core =
             Inr (s, [Core_SendMouseEvent terminalPosition uiButton modifiers sWheelDelta state])"
  using assms TrySendMouseEvent_single [of point modifiers terminalPosition]
  by (auto simp: PointerPressed_def CanSendVTMouseInput_def Let_def)

theorem PointerPressed_vt_forwarded_witness:
  "(Mouse = Mouse \<or> Mouse = Pen) \<and>
   IsVtMouseModeEnabled (plain_core\<lparr>IsVtMouseModeEnabled := True\<rparr>) \<and>
   \<not> IsShiftPressed no_keys \<and>
   \<not> (IsLeftButtonPressed left_press \<and> IsCtrlPressed no_keys \<and>
      GetHyperlink (plain_core\<lparr>IsVtMouseModeEnabled := True\<rparr>) \<noteq> []) \<and>
   (\<exists>uiButton sWheelDelta state.
      PointerPressed fresh left_press no_keys True (3, 4) Mouse
        (plain_core\<lparr>IsVtMouseModeEnabled := True\<rparr>)
      = Inr (fresh, [Core_SendMouseEvent (3, 4) uiButton no_keys sWheelDelta state]))"
  using PointerPressed_vt_forwarded [of Mouse "plain_core\<lparr>IsVtMouseModeEnabled := True\<rparr>"
      no_keys left_press fresh True "(3, 4)"]
  by simp

text \<open>What is sent for the sample press: a left-button-down, no wheel, left button held.\<close>

lemma TrySendMouseEvent_left_press:
  "TrySendMouseEvent left_press no_keys (3, 4) =
     [Core_SendMouseEvent (3, 4) WM_LBUTTONDOWN no_keys 0 (True, False, False)]"
  by (simp add: TrySendMouseEvent_def saturated_cast_short_def)

text \<open>
  C7: a Ctrl+left-button press of a mouse or pen over a cell whose hyperlink is not empty
  registers a click; if the count it gets is 1, exactly one hyperlink-activation signal
  with that URI is raised, and if the count is anything else, nothing is raised.
\<close>

theorem PointerPressed_hyperlink:
  assumes "type = Mouse \<or> type = Pen"
    and "IsLeftButtonPressed point" and "IsCtrlPressed modifiers" and "GetHyperlink core \<noteq> []"
    and "NumberOfClicks s (Position point) (Timestamp point) = Inr (clickCount, s1)"
  shows "PointerPressed s point modifiers focused terminalPosition type core =
           Inr (s1, if clickCount = 1 then [Raise_OpenHyperlink (GetHyperlink core)] else [])"
  using assms by (auto simp: PointerPressed_def Let_def HyperlinkHandler_def)

text \<open>
  A second Ctrl+click at the same position, 10 time units after a first one that counted
  1: the count is 2 and no signal is raised.
\<close>

theorem PointerPressed_hyperlink_witness:
  "(Mouse = Mouse \<or> Mouse = Pen) \<and> IsLeftButtonPressed left_press \<and>
   IsCtrlPressed (no_keys\<lparr>IsCtrlPressed := True\<rparr>) \<and>
   GetHyperlink (plain_core\<lparr>GetHyperlink := ''http://example.com''\<rparr>) \<noteq> [] \<and>
   NumberOfClicks
     (fresh\<lparr>multiClickCounter := 1, lastMouseClickTimestamp := 10, lastMouseClickPos := (10, 10)\<rparr>)
     (Position left_press) (Timestamp left_press)
   = Inr (2, fresh\<lparr>multiClickCounter := 2, lastMouseClickTimestamp := 20,
                     lastMouseClickPos := (10, 10)\<rparr>) \<and>
   PointerPressed
     (fresh\<lparr>multiClickCounter := 1, lastMouseClickTimestamp := 10, lastMouseClickPos := (10, 10)\<rparr>)
     left_press (no_keys\<lparr>IsCtrlPressed := True\<rparr>) True (3, 4) Mouse
     (plain_core\<lparr>GetHyperlink := ''http://example.com''\<rparr>)
   = Inr (fresh\<lparr>multiClickCounter := 2, lastMouseClickTimestamp := 20,
                  lastMouseClickPos := (10, 10)\<rparr>, [])"
proof -
  let ?s = "fresh\<lparr>multiClickCounter := 1, lastMouseClickTimestamp := 10,
                  lastMouseClickPos := (10, 10)\<rparr>"
  let ?s1 = "fresh\<lparr>multiClickCounter := 2, lastMouseClickTimestamp := 20,
                   lastMouseClickPos := (10, 10)\<rparr>"
  let ?core = "plain_core\<lparr>GetHyperlink := ''http://example.com''\<rparr>"
  have n: "NumberOfClicks ?s (Position left_press) (Timestamp left_press) = Inr (2, ?s1)"
    by (simp add: NumberOfClicks_def UInt64Sub_def)
  have "PointerPressed ?s left_press (no_keys\<lparr>IsCtrlPressed := True\<rparr>) True (3, 4) Mouse ?core
        = Inr (?s1, if (2 :: 32 word) = 1 then [Raise_OpenHyperlink (GetHyperlink ?core)] else [])"
    by (rule PointerPressed_hyperlink [OF _ _ _ _ n]) simp_all
  with n show ?thesis by simp
qed

text \<open>
  C10: on a press of a mouse or pen with the right button down, VT forwarding not
  applying, an active selection and copy-on-select disabled, every clipboard copy that
  the event performs passes the Shift-held flag as its single-line argument (and no
  format override). If the left button is not down as well, exactly one such copy is
  performed and the pending-copy flag is cleared. (With the left button also down the
  press is handled as a left click and copies nothing.)
\<close>

theorem PointerPressed_right_click_copy:
  assumes "type = Mouse \<or> type = Pen"
    and "\<not> CanSendVTMouseInput modifiers core"
    and "IsRightButtonPressed point" and "HasSelection core" and "\<not> CopyOnSelect core"
    and "PointerPressed s point modifiers focused terminalPosition type core = Inr (s1, fx)"
  shows "(\<forall>x \<in> set fx. is_CopySelectionToClipboard x \<longrightarrow>
            x = Core_CopySelectionToClipboard (IsShiftPressed modifiers) None) \<and>
         (\<not> IsLeftButtonPressed point \<longrightarrow>
            fx = [Core_CopySelectionToClipboard (IsShiftPressed modifiers) None] \<and>
            s1 = s\<lparr>selectionNeedsToBeCopied := False\<rparr>)"
  using assms
  by (auto simp: PointerPressed_def Let_def HyperlinkHandler_def CopySelectionToClipboard_def
      split: if_splits sum.splits prod.splits)

text \<open>A Shift+right-click with a selection: one copy, collapsed to a single line.\<close>

theorem PointerPressed_right_click_copy_witness:
  "PointerPressed (fresh\<lparr>selectionNeedsToBeCopied := True\<rparr>)
     (left_press\<lparr>IsLeftButtonPressed := False, IsRightButtonPressed := True,
                 UpdateKind := RightButtonPressed\<rparr>)
     (no_keys\<lparr>IsShiftPressed := True\<rparr>) True (3, 4) Mouse
     (plain_core\<lparr>IsVtMouseModeEnabled := True, HasSelection := True\<rparr>)
   = Inr (fresh, [Core_CopySelectionToClipboard True None])"
proof -
  let ?point = "left_press\<lparr>IsLeftButtonPressed := False, IsRightButtonPressed := True,
                           UpdateKind := RightButtonPressed\<rparr>"
  let ?keys = "no_keys\<lparr>IsShiftPressed := True\<rparr>"
  let ?core = "plain_core\<lparr>IsVtMouseModeEnabled := True, HasSelection := True\<rparr>"
  let ?s = "fresh\<lparr>selectionNeedsToBeCopied := True\<rparr>"
  have "\<nexists>e. PointerPressed ?s ?point ?keys True (3, 4) Mouse ?core = Inl e"
    unfolding PointerPressed_raises_iff by simp
  then obtain s1 fx where r: "PointerPressed ?s ?point ?keys True (3, 4) Mouse ?core = Inr (s1, fx)"
    by (metis old.prod.exhaust sum.exhaust)
  have h1: "Mouse = Mouse \<or> Mouse = Pen" by simp
  have h2: "\<not> CanSendVTMouseInput ?keys ?core" by (simp add: CanSendVTMouseInput_def)
  have h3: "IsRightButtonPressed ?point" by simp
  have h4: "HasSelection ?core" by simp
  have h5: "\<not> CopyOnSelect ?core" by simp
  have h6: "\<not> IsLeftButtonPressed ?point" by simp
  from PointerPressed_right_click_copy [OF h1 h2 h3 h4 h5 r] h6
  have "fx = [Core_CopySelectionToClipboard (IsShiftPressed ?keys) None] \<and>
        s1 = ?s\<lparr>selectionNeedsToBeCopied := False\<rparr>"
    by blast
  with r show ?thesis by simp
qed

subsection \<open>When an event is forwarded to the VT mouse input\<close>

text \<open>
  C6, as the claim states it, fails: a focused move of the mouse with VT mouse mode
  enabled and Shift not held is not forwarded when the core is in read-only mode. With
  the left button held it extends the selection instead.
\<close>

theorem PointerMoved_read_only_counterexample:
  "PointerMoved exact_ops fresh left_press no_keys True (3, 4) Mouse
     (plain_core\<lparr>IsVtMouseModeEnabled := True, IsInReadOnlyMode := True\<rparr>)
   = Inr (fresh\<lparr>selectionNeedsToBeCopied := True\<rparr>,
          [Core_SetEndSelectionPoint (3, 4), Core_UpdateHoveredCell (3, 4)])"
  by (simp add: PointerMoved_def CanSendVTMouseInput_def SetEndSelectionPoint_def)

text \<open>
  C6 (amended): \<^verbatim>\<open>_CanSendVTMouseInput\<close> holds if and only if Shift is not held and the
  terminal core reports VT mouse mode enabled. A mouse or pen event is forwarded to
  \<^verbatim>\<open>SendMouseEvent\<close> if and only if that holds and, in addition: for a press, it is
  not a left-button press with Ctrl held over a cell with a non-empty hyperlink; for a
  move, the control is focused and the core is not in read-only mode; for a release, the
  core is not in read-only mode.
\<close>

theorem VT_forwarding_conditions:
  assumes "type = Mouse \<or> type = Pen"
  shows "(CanSendVTMouseInput modifiers core \<longleftrightarrow>
            \<not> IsShiftPressed modifiers \<and> IsVtMouseModeEnabled core) \<and>
         (forwards (PointerPressed s point modifiers focused terminalPosition type core) \<longleftrightarrow>
            CanSendVTMouseInput modifiers core \<and>
            \<not> (IsLeftButtonPressed point \<and> IsCtrlPressed modifiers \<and> GetHyperlink core \<noteq> [])) \<and>
         (forwards (PointerMoved ops s point modifiers focused terminalPosition type core) \<longleftrightarrow>
            CanSendVTMouseInput modifiers core \<and> focused \<and> \<not> IsInReadOnlyMode core) \<and>
         (forwards (PointerReleased s point modifiers focused terminalPosition type core) \<longleftrightarrow>
            CanSendVTMouseInput modifiers core \<and> \<not> IsInReadOnlyMode core)"
proof (intro conjI)
  show "CanSendVTMouseInput modifiers core \<longleftrightarrow>
          \<not> IsShiftPressed modifiers \<and> IsVtMouseModeEnabled core"
    by (simp add: CanSendVTMouseInput_def)
  show "forwards (PointerPressed s point modifiers focused terminalPosition type core) \<longleftrightarrow>
          CanSendVTMouseInput modifiers core \<and>
          \<not> (IsLeftButtonPressed point \<and> IsCtrlPressed modifiers \<and> GetHyperlink core \<noteq> [])"
    using assms
    by (auto simp: PointerPressed_def Let_def HyperlinkHandler_def CopySelectionToClipboard_def
        PasteTextFromClipboard_def forwards_def split: sum.splits prod.splits if_splits)
  show "forwards (PointerMoved ops s point modifiers focused terminalPosition type core) \<longleftrightarrow>
          CanSendVTMouseInput modifiers core \<and> focused \<and> \<not> IsInReadOnlyMode core"
    using assms
    by (auto simp: PointerMoved_def Let_def SetEndSelectionPoint_def forwards_def
        split: option.splits prod.splits if_splits)
  show "forwards (PointerReleased s point modifiers focused terminalPosition type core) \<longleftrightarrow>
          CanSendVTMouseInput modifiers core \<and> \<not> IsInReadOnlyMode core"
    using assms
    by (auto simp: PointerReleased_def Let_def CopySelectionToClipboard_def forwards_def
        split: option.splits prod.splits if_splits)
qed

text \<open>
  With VT mouse mode enabled, Shift not held and the core not read-only, the sample
  press, a focused move and a release of the mouse are all forwarded.
\<close>

theorem VT_forwarding_conditions_witness:
  "(Mouse = Mouse \<or> Mouse = Pen) \<and>
   CanSendVTMouseInput no_keys (plain_core\<lparr>IsVtMouseModeEnabled := True\<rparr>) \<and>
   forwards (PointerPressed fresh left_press no_keys True (3, 4) Mouse
               (plain_core\<lparr>IsVtMouseModeEnabled := True\<rparr>)) \<and>
   forwards (PointerMoved exact_ops fresh left_press no_keys True (3, 4) Mouse
               (plain_core\<lparr>IsVtMouseModeEnabled := True\<rparr>)) \<and>
   forwards (PointerReleased fresh left_press no_keys True (3, 4) Mouse
               (plain_core\<lparr>IsVtMouseModeEnabled := True\<rparr>))"
proof -
  have h: "Mouse = Mouse \<or> Mouse = Pen" by simp
  show ?thesis
    using VT_forwarding_conditions [OF h, of no_keys "plain_core\<lparr>IsVtMouseModeEnabled := True\<rparr>"
        fresh left_press True "(3, 4)" exact_ops]
    by simp
qed

subsection \<open>Release\<close>

lemma PointerReleased_forwarded:
  assumes "type = Mouse \<or> type = Pen"
    and "\<not> IsInReadOnlyMode core" and "CanSendVTMouseInput modifiers core"
  shows "PointerReleased s point modifiers focused terminalPosition type core =
           Inr (s, TrySendMouseEvent point modifiers terminalPosition)"
  using assms by (simp add: PointerReleased_def)

text \<open>
  C3, as the claim states it, fails: a touchdown is pending and a copy is owed, copy on
  select is enabled, and the left button of the mouse is released while VT mouse mode
  is enabled and Shift is not held. The release is forwarded and the handler returns at
  once: nothing is copied, the flag stays set and the touchdown stays in place.
\<close>

theorem PointerReleased_forwarded_counterexample:
  "PointerReleased
     (fresh\<lparr>selectionNeedsToBeCopied := True, singleClickTouchdownPos := Some (10, 10),
            singleClickTouchdownTerminalPos := Some (3, 4)\<rparr>)
     (left_press\<lparr>IsLeftButtonPressed := False, UpdateKind := LeftButtonReleased\<rparr>)
     no_keys True (3, 4) Mouse
     (plain_core\<lparr>IsVtMouseModeEnabled := True, CopyOnSelect := True\<rparr>)
   = Inr (fresh\<lparr>selectionNeedsToBeCopied := True, singleClickTouchdownPos := Some (10, 10),
                 singleClickTouchdownTerminalPos := Some (3, 4)\<rparr>,
          [Core_SendMouseEvent (3, 4) WM_LBUTTONUP no_keys 0 (False, False, False)])"
  by (simp add: PointerReleased_def CanSendVTMouseInput_def TrySendMouseEvent_def
      saturated_cast_short_def)

text \<open>
  C3 (amended): for every pointer-release event that is not forwarded to the VT mouse
  input (the device is not a mouse or pen, or the core is read-only, or Shift is held,
  or VT mouse mode is off): if the device is a mouse or pen, copy-on-select is enabled,
  the released button is the left button and the pending-copy flag is set, exactly one
  \<^verbatim>\<open>CopySelectionToClipboard\<close> call is made (not collapsed to a single line, no format
  override) and the flag is cleared; otherwise no call is made and the flag keeps its
  value; and in every such release the touchdown state is cleared.
\<close>

theorem PointerReleased_not_forwarded:
  assumes "\<not> ((type = Mouse \<or> type = Pen) \<and> \<not> IsInReadOnlyMode core \<and>
               CanSendVTMouseInput modifiers core)"
  shows "\<exists>s1 fx.
      PointerReleased s point modifiers focused terminalPosition type core = Inr (s1, fx) \<and>
      singleClickTouchdownPos s1 = None \<and> singleClickTouchdownTerminalPos s1 = None \<and>
      ((type = Mouse \<or> type = Pen) \<and> CopyOnSelect core \<and>
         UpdateKind point = LeftButtonReleased \<and> selectionNeedsToBeCopied s
       \<longrightarrow> fx = [Core_CopySelectionToClipboard False None] \<and> \<not> selectionNeedsToBeCopied s1) \<and>
      (\<not> ((type = Mouse \<or> type = Pen) \<and> CopyOnSelect core \<and>
           UpdateKind point = LeftButtonReleased \<and> selectionNeedsToBeCopied s)
       \<longrightarrow> fx = [] \<and> selectionNeedsToBeCopied s1 = selectionNeedsToBeCopied s)"
  using assms
  by (auto simp: PointerReleased_def CopySelectionToClipboard_def)

text \<open>The same release with VT mouse mode off: one copy, flag and touchdown cleared.\<close>

theorem PointerReleased_not_forwarded_witness:
  "PointerReleased
     (fresh\<lparr>selectionNeedsToBeCopied := True, singleClickTouchdownPos := Some (10, 10),
            singleClickTouchdownTerminalPos := Some (3, 4)\<rparr>)
     (left_press\<lparr>IsLeftButtonPressed := False, UpdateKind := LeftButtonReleased\<rparr>)
     no_keys True (3, 4) Mouse (plain_core\<lparr>CopyOnSelect := True\<rparr>)
   = Inr (fresh, [Core_CopySelectionToClipboard False None])"
proof -
  let ?s = "fresh\<lparr>selectionNeedsToBeCopied := True, singleClickTouchdownPos := Some (10, 10),
                  singleClickTouchdownTerminalPos := Some (3, 4)\<rparr>"
  let ?point = "left_press\<lparr>IsLeftButtonPressed := False, UpdateKind := LeftButtonReleased\<rparr>"
  let ?core = "plain_core\<lparr>CopyOnSelect := True\<rparr>"
  have h: "\<not> ((Mouse = Mouse \<or> Mouse = Pen) \<and> \<not> IsInReadOnlyMode ?core \<and>
              CanSendVTMouseInput no_keys ?core)"
    by (simp add: CanSendVTMouseInput_def)
  from PointerReleased_not_forwarded [OF h, of ?s ?point True "(3, 4)"]
  obtain s1 fx where
    r: "PointerReleased ?s ?point no_keys True (3, 4) Mouse ?core = Inr (s1, fx)" and
    c: "(Mouse = Mouse \<or> Mouse = Pen) \<and> CopyOnSelect ?core \<and>
          UpdateKind ?point = LeftButtonReleased \<and> selectionNeedsToBeCopied ?s
        \<longrightarrow> fx = [Core_CopySelectionToClipboard False None] \<and> \<not> selectionNeedsToBeCopied s1"
    by blast
  from c have fx: "fx = [Core_CopySelectionToClipboard False None]" by simp
  have "PointerReleased ?s ?point no_keys True (3, 4) Mouse ?core =
          Inr (fresh, [Core_CopySelectionToClipboard False None])"
    by (simp add: PointerReleased_def CanSendVTMouseInput_def CopySelectionToClipboard_def)
  with r fx show ?thesis by simp
qed

subsection \<open>Dragging a selection\<close>

lemma le_sqrt_iff: "0 \<le> t \<Longrightarrow> t \<le> sqrt x \<longleftrightarrow> t\<^sup>2 \<le> x"
  using real_sqrt_le_iff [of "t\<^sup>2" x] by simp

text \<open>A move while the control is not focused, whatever the arithmetic.\<close>

lemma PointerMoved_unfocused:
  "\<not> focused \<Longrightarrow>
   PointerMoved ops s point modifiers focused terminalPosition type core =
     (if type = Mouse \<or> type = Pen then Inr (s, [Core_UpdateHoveredCell terminalPosition])
      else Inr (s, []))"
  by (simp add: PointerMoved_def)

text \<open>
  C2, as the claim states it, fails: a touchdown is pending at (10, 10) and the mouse
  moves to (50, 10) with the left button held; VT forwarding does not apply. The control
  is not focused, and the move neither sets the anchor nor extends the selection nor
  sets the pending-copy flag: only the hovered cell is updated. (No arithmetic is done
  on this path.)
\<close>

theorem PointerMoved_unfocused_counterexample:
  "PointerMoved exact_ops
     (fresh\<lparr>singleClickTouchdownPos := Some (10, 10),
            singleClickTouchdownTerminalPos := Some (3, 4)\<rparr>)
     (left_press\<lparr>Position := (50, 10)\<rparr>) no_keys False (8, 4) Mouse plain_core
   = Inr (fresh\<lparr>singleClickTouchdownPos := Some (10, 10),
                 singleClickTouchdownTerminalPos := Some (3, 4)\<rparr>,
          [Core_UpdateHoveredCell (8, 4)])"
  by (simp add: PointerMoved_def CanSendVTMouseInput_def)

text \<open>
  The same move with the control focused. The touchdown was at cell (3, 4), the pointer
  is now over cell (8, 4): the anchor is set at (8, 4), the cell of the current
  position. The cell stored at the touchdown is cleared without having been read.
\<close>

lemma PointerMoved_anchor_at_current_cell:
  "PointerMoved exact_ops
     (fresh\<lparr>singleClickTouchdownPos := Some (10, 10),
            singleClickTouchdownTerminalPos := Some (3, 4)\<rparr>)
     (left_press\<lparr>Position := (50, 10)\<rparr>) no_keys True (8, 4) Mouse plain_core
   = Inr (fresh\<lparr>selectionNeedsToBeCopied := True\<rparr>,
          [Core_SetSelectionAnchor (8, 4), Core_SetEndSelectionPoint (8, 4),
           Core_UpdateHoveredCell (8, 4)])"
  by (simp add: PointerMoved_def CanSendVTMouseInput_def SetEndSelectionPoint_def le_sqrt_iff
      exact_ops_def)

text \<open>
  C2 (amended): for every move event of a mouse or pen with the control focused, the
  left button held and VT forwarding not applying: the selection end point is extended
  to the current cell and the pending-copy flag is set; and if a touchdown is pending,
  then with \<open>distance\<close> the distance of the pointer from the touchdown point and
  \<open>threshold\<close> one quarter of the smaller cell dimension, both as the source computes
  them in floating point (\<^verbatim>\<open>sqrtf\<close> of the sum of the two \<^verbatim>\<open>powf\<close> squares; the
  smaller integer dimension converted and divided by \<^verbatim>\<open>4.f\<close>): if
  \<open>distance >= threshold\<close> holds, one selection anchor is set before the extension and
  the touchdown state is cleared, and if it does not hold, no anchor is set and the
  touchdown stays. (Which cell the anchor gets is left open here.)
\<close>

theorem PointerMoved_drag:
  assumes "type = Mouse \<or> type = Pen" and "focused" and "IsLeftButtonPressed point"
    and "\<not> (\<not> IsInReadOnlyMode core \<and> CanSendVTMouseInput modifiers core)"
  shows "\<exists>s1 fx.
      PointerMoved ops s point modifiers focused terminalPosition type core =
        Inr (s1, fx @ [Core_SetEndSelectionPoint terminalPosition,
                       Core_UpdateHoveredCell terminalPosition]) \<and>
      selectionNeedsToBeCopied s1 \<and>
      (\<forall>touchdown distance threshold.
         singleClickTouchdownPos s = Some touchdown \<and>
         distance =
           f_sqrt ops
             (f_add ops
                (f_pow ops (f_sub ops (fst (Position point)) (fst touchdown)) (f_of_int ops 2))
                (f_pow ops (f_sub ops (snd (Position point)) (snd touchdown)) (f_of_int ops 2))) \<and>
         threshold =
           f_div ops
             (f_of_int ops (min (fst (FontSizeInDips core)) (snd (FontSizeInDips core))))
             (f_of_int ops 4)
         \<longrightarrow> (f_ge ops distance threshold \<longrightarrow>
                (\<exists>cell. fx = [Core_SetSelectionAnchor cell]) \<and>
                singleClickTouchdownPos s1 = None \<and>
                singleClickTouchdownTerminalPos s1 = None) \<and>
             (\<not> f_ge ops distance threshold \<longrightarrow>
                fx = [] \<and>
                singleClickTouchdownPos s1 = Some touchdown \<and>
                singleClickTouchdownTerminalPos s1 = singleClickTouchdownTerminalPos s)) \<and>
      (singleClickTouchdownPos s = None \<longrightarrow> fx = [] \<and> singleClickTouchdownPos s1 = None)"
proof (cases "singleClickTouchdownPos s")
  case None
  with assms show ?thesis
    by (auto simp: PointerMoved_def Let_def SetEndSelectionPoint_def)
next
  case (Some touchdown)
  let ?reached =
    "f_ge ops
       (f_sqrt ops
          (f_add ops
             (f_pow ops (f_sub ops (fst (Position point)) (fst touchdown)) (f_of_int ops 2))
             (f_pow ops (f_sub ops (snd (Position point)) (snd touchdown)) (f_of_int ops 2))))
       (f_div ops
          (f_of_int ops (min (fst (FontSizeInDips core)) (snd (FontSizeInDips core))))
          (f_of_int ops 4))"
  show ?thesis
  proof (cases ?reached)
    case True
    with Some assms show ?thesis
      by (auto simp: PointerMoved_def Let_def SetEndSelectionPoint_def)
  next
    case False
    with Some assms show ?thesis
      by (auto simp: PointerMoved_def Let_def SetEndSelectionPoint_def)
  qed
qed

text \<open>
  A touchdown at (10, 10), a focused move to (50, 10), cells of 8 by 16: the distance 40
  is beyond the threshold 2, so an anchor is set, the selection is extended to the
  current cell (8, 4), the flag is set and the touchdown is cleared.
\<close>

theorem PointerMoved_drag_witness:
  "\<exists>s1 cell.
     PointerMoved exact_ops
       (fresh\<lparr>singleClickTouchdownPos := Some (10, 10),
              singleClickTouchdownTerminalPos := Some (3, 4)\<rparr>)
       (left_press\<lparr>Position := (50, 10)\<rparr>) no_keys True (8, 4) Mouse plain_core
     = Inr (s1, [Core_SetSelectionAnchor cell, Core_SetEndSelectionPoint (8, 4),
                 Core_UpdateHoveredCell (8, 4)]) \<and>
     selectionNeedsToBeCopied s1 \<and> singleClickTouchdownPos s1 = None"
proof -
  let ?s = "fresh\<lparr>singleClickTouchdownPos := Some (10, 10),
                  singleClickTouchdownTerminalPos := Some (3, 4)\<rparr>"
  let ?point = "left_press\<lparr>Position := (50, 10)\<rparr>"
  let ?distance =
    "f_sqrt exact_ops
       (f_add exact_ops
          (f_pow exact_ops (f_sub exact_ops (fst (Position ?point)) (fst (10 :: real, 10 :: real)))
             (f_of_int exact_ops 2))
          (f_pow exact_ops (f_sub exact_ops (snd (Position ?point)) (snd (10 :: real, 10 :: real)))
             (f_of_int exact_ops 2)))"
  let ?threshold =
    "f_div exact_ops
       (f_of_int exact_ops (min (fst (FontSizeInDips plain_core)) (snd (FontSizeInDips plain_core))))
       (f_of_int exact_ops 4)"
  have h1: "Mouse = Mouse \<or> Mouse = Pen" by simp
  have h2: "True" by simp
  have h3: "IsLeftButtonPressed ?point" by simp
  have h4: "\<not> (\<not> IsInReadOnlyMode plain_core \<and> CanSendVTMouseInput no_keys plain_core)"
    by (simp add: CanSendVTMouseInput_def)
  have far: "f_ge exact_ops ?distance ?threshold"
    by (simp add: exact_ops_def le_sqrt_iff)
  have td: "singleClickTouchdownPos ?s = Some (10, 10)" by simp
  from PointerMoved_drag [OF h1 h2 h3 h4, of exact_ops ?s "(8, 4)"]
  obtain s1 fx where
    r: "PointerMoved exact_ops ?s ?point no_keys True (8, 4) Mouse plain_core =
          Inr (s1, fx @ [Core_SetEndSelectionPoint (8, 4), Core_UpdateHoveredCell (8, 4)])" and
    f: "selectionNeedsToBeCopied s1" and
    a: "\<forall>touchdown distance threshold.
         singleClickTouchdownPos ?s = Some touchdown \<and>
         distance =
           f_sqrt exact_ops
             (f_add exact_ops
                (f_pow exact_ops (f_sub exact_ops (fst (Position ?point)) (fst touchdown))
                   (f_of_int exact_ops 2))
                (f_pow exact_ops (f_sub exact_ops (snd (Position ?point)) (snd touchdown))
                   (f_of_int exact_ops 2))) \<and>
         threshold =
           f_div exact_ops
             (f_of_int exact_ops
                (min (fst (FontSizeInDips plain_core)) (snd (FontSizeInDips plain_core))))
             (f_of_int exact_ops 4)
         \<longrightarrow> (f_ge exact_ops distance threshold \<longrightarrow>
                (\<exists>cell. fx = [Core_SetSelectionAnchor cell]) \<and>
                singleClickTouchdownPos s1 = None \<and>
                singleClickTouchdownTerminalPos s1 = None) \<and>
             (\<not> f_ge exact_ops distance threshold \<longrightarrow>
                fx = [] \<and>
                singleClickTouchdownPos s1 = Some touchdown \<and>
                singleClickTouchdownTerminalPos s1 = singleClickTouchdownTerminalPos ?s)"
    by (elim exE conjE)
  let ?anchored = "(\<exists>cell. fx = [Core_SetSelectionAnchor cell]) \<and>
                   singleClickTouchdownPos s1 = None \<and>
                   singleClickTouchdownTerminalPos s1 = None"
  let ?kept = "fx = [] \<and>
               singleClickTouchdownPos s1 = Some (10 :: real, 10 :: real) \<and>
               singleClickTouchdownTerminalPos s1 = singleClickTouchdownTerminalPos ?s"
  from a have imp:
    "singleClickTouchdownPos ?s = Some (10, 10) \<and> ?distance = ?distance \<and>
       ?threshold = ?threshold
     \<longrightarrow> (f_ge exact_ops ?distance ?threshold \<longrightarrow> ?anchored) \<and>
         (\<not> f_ge exact_ops ?distance ?threshold \<longrightarrow> ?kept)"
    by (elim allE)
  have pre: "singleClickTouchdownPos ?s = Some (10, 10) \<and> ?distance = ?distance \<and>
             ?threshold = ?threshold"
    by (rule conjI [OF td conjI [OF refl refl]])
  from imp pre
  have "(f_ge exact_ops ?distance ?threshold \<longrightarrow> ?anchored) \<and>
        (\<not> f_ge exact_ops ?distance ?threshold \<longrightarrow> ?kept)"
    by (rule mp)
  then have "f_ge exact_ops ?distance ?threshold \<longrightarrow> ?anchored"
    by (rule conjunct1)
  from this far have "?anchored"
    by (rule mp)
  then obtain cell where c: "fx = [Core_SetSelectionAnchor cell]"
    and n: "singleClickTouchdownPos s1 = None"
    by (elim exE conjE)
  from r c have "PointerMoved exact_ops ?s ?point no_keys True (8, 4) Mouse plain_core =
      Inr (s1, [Core_SetSelectionAnchor cell, Core_SetEndSelectionPoint (8, 4),
                Core_UpdateHoveredCell (8, 4)])"
    by (simp only: append.simps)
  with f n show ?thesis by (intro exI conjI)
qed

subsection \<open>Panning by touch\<close>




text \<open>
  In exact arithmetic a downward drag over cells of positive height gives a negative
  number of rows.
\<close>

lemma exact_ops_numRows_negative:
  "0 < dy \<Longrightarrow> 0 < h \<Longrightarrow>
   f_mul exact_ops (f_of_int exact_ops (- 1)) (f_div exact_ops dy (f_of_int exact_ops h)) < 0"
  by (simp add: exact_ops_def)

subsection \<open>Touch anchor and selection touchdown\<close>

text \<open>
  One event keeps the two from being present together, unless it is a press of one kind
  of pointer while the state of the other kind is present.
\<close>

lemma dispatch_keeps_touchAnchor:
  "ev_type e \<noteq> Touch \<Longrightarrow> dispatch ops s e = Inr (s1, fx) \<Longrightarrow> touchAnchor s1 = touchAnchor s"
  by (cases "ev_handler e")
    (auto simp: dispatch_def PointerPressed_def PointerMoved_def PointerReleased_def Let_def
      NumberOfClicks_def UInt64Sub_def CopySelectionToClipboard_def SetEndSelectionPoint_def
      split: if_splits sum.splits prod.splits option.splits)

lemma dispatch_keeps_no_touchdown:
  "ev_type e \<noteq> Mouse \<Longrightarrow> ev_type e \<noteq> Pen \<Longrightarrow> dispatch ops s e = Inr (s1, fx) \<Longrightarrow>
   singleClickTouchdownPos s = None \<Longrightarrow> singleClickTouchdownPos s1 = None"
  by (cases "ev_handler e")
    (auto simp: dispatch_def PointerPressed_def PointerMoved_def PointerReleased_def Let_def
      split: if_splits option.splits)

lemma dispatch_not_pressed_keeps_None:
  assumes "ev_handler e \<noteq> Pressed" and "dispatch ops s e = Inr (s1, fx)"
  shows "(touchAnchor s = None \<longrightarrow> touchAnchor s1 = None) \<and>
         (singleClickTouchdownPos s = None \<longrightarrow> singleClickTouchdownPos s1 = None)"
proof (cases "ev_handler e")
  case Pressed
  with assms show ?thesis by simp
next
  case Moved
  with assms show ?thesis
    by (auto simp: dispatch_def PointerMoved_def Let_def SetEndSelectionPoint_def
        split: if_splits option.splits prod.splits)
next
  case Released
  with assms show ?thesis
    by (auto simp: dispatch_def PointerReleased_def CopySelectionToClipboard_def
        split: if_splits)
qed

lemma dispatch_keeps_exclusive:
  assumes excl: "touchAnchor s = None \<or> singleClickTouchdownPos s = None"
    and np: "\<not> press_of_other_kind s e"
    and d: "dispatch ops s e = Inr (s1, fx)"
  shows "touchAnchor s1 = None \<or> singleClickTouchdownPos s1 = None"
proof (cases "ev_handler e = Pressed")
  case False
  from dispatch_not_pressed_keeps_None [OF False d] excl show ?thesis by auto
next
  case True
  show ?thesis
  proof (cases "ev_type e = Touch")
    case touch: True
    with True np have "singleClickTouchdownPos s = None"
      by (cases "singleClickTouchdownPos s") (auto simp: press_of_other_kind_def)
    with touch d have "singleClickTouchdownPos s1 = None"
      by (intro dispatch_keeps_no_touchdown [of e ops s s1 fx]) simp_all
    then show ?thesis ..
  next
    case other: False
    from dispatch_keeps_touchAnchor [OF other d]
    have a: "touchAnchor s1 = touchAnchor s" .
    show ?thesis
    proof (cases "ev_type e = Mouse \<or> ev_type e = Pen")
      case True
      with \<open>ev_handler e = Pressed\<close> np have "touchAnchor s = None"
        by (cases "touchAnchor s") (auto simp: press_of_other_kind_def)
      with a show ?thesis by simp
    next
      case False
      with d have "singleClickTouchdownPos s = None \<Longrightarrow> singleClickTouchdownPos s1 = None"
        by (intro dispatch_keeps_no_touchdown [of e ops s s1 fx]) simp_all
      with excl a show ?thesis by auto
    qed
  qed
qed

lemma run_events_keeps_exclusive:
  "touchAnchor s = None \<or> singleClickTouchdownPos s = None \<Longrightarrow>
   no_press_of_other_kind ops s es \<Longrightarrow>
   touchAnchor (run_events ops s es) = None \<or> singleClickTouchdownPos (run_events ops s es) = None"
proof (induction es arbitrary: s)
  case Nil
  then show ?case by simp
next
  case (Cons e es)
  show ?case
  proof (cases "dispatch ops s e")
    case (Inl err)
    with Cons show ?thesis by simp
  next
    case (Inr r)
    obtain s1 fx where r: "r = (s1, fx)" by (cases r)
    from Cons.prems(2) have np: "\<not> press_of_other_kind s e" by simp
    from Cons.prems(2) Inr r have rest: "no_press_of_other_kind ops s1 es" by simp
    from Inr r have d: "dispatch ops s e = Inr (s1, fx)" by simp
    have "touchAnchor s1 = None \<or> singleClickTouchdownPos s1 = None"
      by (rule dispatch_keeps_exclusive [OF Cons.prems(1) np d])
    from Cons.IH [OF this rest] Inr r show ?thesis by simp
  qed
qed

text \<open>
  C4, as the claim states it, fails: on a fresh object, a left-button press of the mouse
  (no selection, VT forwarding not applying) captures the selection touchdown, and a
  touch press that arrives before the mouse button is released sets the touch anchor.
  After the two events both are present.
\<close>

theorem mouse_then_touch_counterexample:
  "touchAnchor
     (run_events exact_ops fresh
        [\<lparr> ev_handler = Pressed, ev_point = left_press, ev_modifiers = no_keys,
           ev_focused = True, ev_terminalPosition = (3, 4), ev_type = Mouse,
           ev_core = plain_core \<rparr>,
         \<lparr> ev_handler = Pressed, ev_point = left_press, ev_modifiers = no_keys,
           ev_focused = True, ev_terminalPosition = (3, 4), ev_type = Touch,
           ev_core = plain_core \<rparr>]) = Some (0, 0) \<and>
   singleClickTouchdownPos
     (run_events exact_ops fresh
        [\<lparr> ev_handler = Pressed, ev_point = left_press, ev_modifiers = no_keys,
           ev_focused = True, ev_terminalPosition = (3, 4), ev_type = Mouse,
           ev_core = plain_core \<rparr>,
         \<lparr> ev_handler = Pressed, ev_point = left_press, ev_modifiers = no_keys,
           ev_focused = True, ev_terminalPosition = (3, 4), ev_type = Touch,
           ev_core = plain_core \<rparr>]) = Some (10, 10)"
  by (simp add: dispatch_def PointerPressed_def CanSendVTMouseInput_def NumberOfClicks_def
      UInt64Sub_def multiClickMapper_def MAX_CLICK_COUNT_def Let_def)

text \<open>
  C4 (amended): in every state reached from a newly constructed object by a finite
  sequence of pointer events (press, move, release of any device kind, any modifiers,
  any answers of the core) in which no touch press arrives while a selection touchdown
  is pending and no mouse or pen press arrives while a touch anchor exists, at most one
  of the touch anchor and the selection touchdown is present.
\<close>

theorem no_press_of_other_kind_exclusive:
  assumes "no_press_of_other_kind ops (ControlInteractivity timer counter posNoSelection) es"
  shows "touchAnchor (run_events ops (ControlInteractivity timer counter posNoSelection) es) = None \<or>
         singleClickTouchdownPos
           (run_events ops (ControlInteractivity timer counter posNoSelection) es) = None"
proof -
  have "touchAnchor (ControlInteractivity timer counter posNoSelection) = None \<or>
        singleClickTouchdownPos (ControlInteractivity timer counter posNoSelection) = None"
    by (simp add: ControlInteractivity_def)
  from run_events_keeps_exclusive [OF this assms] show ?thesis .
qed

text \<open>
  A stream that mixes the two kinds: a left-button press of the mouse captures the
  touchdown, its release (not forwarded) clears it, and a touch press then sets the
  anchor. No press arrives while the other kind's state is present.
\<close>

theorem no_press_of_other_kind_exclusive_witness:
  "no_press_of_other_kind exact_ops (ControlInteractivity 500000 0 (0, 0))
     [\<lparr> ev_handler = Pressed, ev_point = left_press, ev_modifiers = no_keys,
        ev_focused = True, ev_terminalPosition = (3, 4), ev_type = Mouse,
        ev_core = plain_core \<rparr>,
      \<lparr> ev_handler = Released, ev_point = left_press, ev_modifiers = no_keys,
        ev_focused = True, ev_terminalPosition = (3, 4), ev_type = Mouse,
        ev_core = plain_core \<rparr>,
      \<lparr> ev_handler = Pressed, ev_point = left_press, ev_modifiers = no_keys,
        ev_focused = True, ev_terminalPosition = (3, 4), ev_type = Touch,
        ev_core = plain_core \<rparr>] \<and>
   (touchAnchor
      (run_events exact_ops (ControlInteractivity 500000 0 (0, 0))
         [\<lparr> ev_handler = Pressed, ev_point = left_press, ev_modifiers = no_keys,
            ev_focused = True, ev_terminalPosition = (3, 4), ev_type = Mouse,
            ev_core = plain_core \<rparr>,
          \<lparr> ev_handler = Released, ev_point = left_press, ev_modifiers = no_keys,
            ev_focused = True, ev_terminalPosition = (3, 4), ev_type = Mouse,
            ev_core = plain_core \<rparr>,
          \<lparr> ev_handler = Pressed, ev_point = left_press, ev_modifiers = no_keys,
            ev_focused = True, ev_terminalPosition = (3, 4), ev_type = Touch,
            ev_core = plain_core \<rparr>]) = None \<or>
    singleClickTouchdownPos
      (run_events exact_ops (ControlInteractivity 500000 0 (0, 0))
         [\<lparr> ev_handler = Pressed, ev_point = left_press, ev_modifiers = no_keys,
            ev_focused = True, ev_terminalPosition = (3, 4), ev_type = Mouse,
            ev_core = plain_core \<rparr>,
          \<lparr> ev_handler = Released, ev_point = left_press, ev_modifiers = no_keys,
            ev_focused = True, ev_terminalPosition = (3, 4), ev_type = Mouse,
            ev_core = plain_core \<rparr>,
          \<lparr> ev_handler = Pressed, ev_point = left_press, ev_modifiers = no_keys,
            ev_focused = True, ev_terminalPosition = (3, 4), ev_type = Touch,
            ev_core = plain_core \<rparr>]) = None)"
proof -
  let ?es = "[\<lparr> ev_handler = Pressed, ev_point = left_press, ev_modifiers = no_keys,
                ev_focused = True, ev_terminalPosition = (3, 4), ev_type = Mouse,
                ev_core = plain_core \<rparr>,
              \<lparr> ev_handler = Released, ev_point = left_press, ev_modifiers = no_keys,
                ev_focused = True, ev_terminalPosition = (3, 4), ev_type = Mouse,
                ev_core = plain_core \<rparr>,
              \<lparr> ev_handler = Pressed, ev_point = left_press, ev_modifiers = no_keys,
                ev_focused = True, ev_terminalPosition = (3, 4), ev_type = Touch,
                ev_core = plain_core \<rparr>]"
  have h: "no_press_of_other_kind exact_ops (ControlInteractivity 500000 0 (0, 0)) ?es"
    by (simp add: ControlInteractivity_def press_of_other_kind_def dispatch_def
        PointerPressed_def PointerReleased_def CanSendVTMouseInput_def NumberOfClicks_def
        UInt64Sub_def multiClickMapper_def MAX_CLICK_COUNT_def Let_def)
  from h no_press_of_other_kind_exclusive [OF h] show ?thesis by (rule conjI)
qed

end
